theory Spec2Isabelle
  imports Main "HOL-Library.Word" "HOL-Library.Sublist"
begin

section \<open>Go values used by the tunnel and relay code\<close>

text \<open>
  The package \<open>kubernetes\<close> of the CLI owns a port-forward session (\<open>PortForward\<close>)
  and two relays built on it (\<open>InvokeByPortForward\<close>, \<open>WebsocketByPortForward\<close>).
  Everything the code obtains from client-go, net/http and gorilla/websocket is an
  external collaborator: its answers are fields of the record \<open>env\<close> below, and the
  Go functions are functions of \<open>env\<close> and their arguments.
\<close>

type_synonym byte = "8 word"

subsection \<open>Errors\<close>

text \<open>
  A Go error is a message with an optional wrapped cause. \<open>errors.New\<close> and
  \<open>fmt.Errorf\<close> without \<open>%w\<close> give \<open>ErrorString\<close>; \<open>fmt.Errorf\<close> with \<open>%w\<close> and
  \<open>errors.Wrap\<close> give \<open>WrapError\<close>, whose first field is the whole message.
\<close>

datatype error = ErrorString string | WrapError string error

fun Error :: "error \<Rightarrow> string" where
  "Error (ErrorString s) = s"
| "Error (WrapError msg err) = msg"

fun Unwrap :: "error \<Rightarrow> error option" where
  "Unwrap (ErrorString s) = None"
| "Unwrap (WrapError msg err) = Some err"

subsection \<open>Formatting\<close>

text \<open>Decimal digits of a natural number, most significant first (\<open>strconv\<close>).\<close>

function digits :: "nat \<Rightarrow> string" where
  "digits n = (if n < 10 then [''0123456789'' ! n]
               else digits (n div 10) @ [''0123456789'' ! (n mod 10)])"
  by pat_completeness auto
termination
  by (relation "measure (\<lambda>n. n)") auto

declare digits.simps [simp del]

definition itoa :: "int \<Rightarrow> string" where
  "itoa i = (if i < 0 then CHR ''-'' # digits (nat (- i)) else digits (nat i))"

datatype fmt_arg = S string | I int

text \<open>
  One operand under one verb. The source uses \<open>%s\<close>, \<open>%v\<close>, \<open>%d\<close> and \<open>%w\<close>; a
  string under \<open>%d\<close> and an integer under \<open>%s\<close> print Go's bad-verb notice.
\<close>

fun formatArg :: "char \<Rightarrow> fmt_arg \<Rightarrow> string" where
  "formatArg verb (S s) =
     (if verb = CHR ''d'' then ''%!d(string='' @ s @ '')'' else s)"
| "formatArg verb (I i) =
     (if verb = CHR ''s'' then ''%!s(int='' @ itoa i @ '')'' else itoa i)"

text \<open>
  \<open>fmt.Sprintf\<close> restricted to the verbs above: every \<open>%\<close> followed by a verb
  consumes the next operand; a verb with no operand left prints \<open>%!v(MISSING)\<close>.
  Flags, widths, \<open>%%\<close> and surplus operands do not occur in the source.
\<close>

fun Sprintf :: "string \<Rightarrow> fmt_arg list \<Rightarrow> string" where
  "Sprintf [] args = []"
| "Sprintf [c] args = [c]"
| "Sprintf (c # verb # fs) args =
     (if c = CHR ''%''
      then (case args of
              [] \<Rightarrow> ''%!'' @ [verb] @ ''(MISSING)'' @ Sprintf fs []
            | a # as \<Rightarrow> formatArg verb a @ Sprintf fs as)
      else c # Sprintf (verb # fs) args)"

text \<open>\<open>fmt.Errorf(format, err)\<close> where the format holds one \<open>%w\<close>.\<close>

definition Errorf_w :: "string \<Rightarrow> error \<Rightarrow> error" where
  "Errorf_w format err = WrapError (Sprintf format [S (Error err)]) err"

text \<open>\<open>fmt.Errorf(format, s)\<close> where the format holds one \<open>%s\<close>.\<close>

definition Errorf_s :: "string \<Rightarrow> string \<Rightarrow> error" where
  "Errorf_s format s = ErrorString (Sprintf format [S s])"

text \<open>\<open>errors.Wrap(err, message)\<close> of github.com/pkg/errors, for a non-nil \<open>err\<close>.\<close>

definition errors_Wrap :: "error \<Rightarrow> string \<Rightarrow> error" where
  "errors_Wrap err message = WrapError (message @ '': '' @ Error err) err"

text \<open>\<open>string(b)\<close> and \<open>[]byte(s)\<close>: the same bytes, retyped.\<close>

definition string_of_bytes :: "byte list \<Rightarrow> string" where
  "string_of_bytes bs = map (\<lambda>b. char_of (unat b)) bs"

definition bytes_of_string :: "string \<Rightarrow> byte list" where
  "bytes_of_string s = map (\<lambda>c. of_nat (of_char c)) s"

subsection \<open>Channels and control outcomes\<close>

text \<open>
  A channel of \<open>struct{}\<close> on which nothing is ever sent is nil, open or closed.
  The builtin \<open>close\<close> panics on a nil and on a closed channel.
\<close>

datatype chan = NilCh | OpenCh | ClosedCh

text \<open>
  How a call ends: it returns a value, it panics, or it never returns (blocked
  on a channel or a read, or still looping).
\<close>

datatype 'a exec = Done 'a | Panic string | NoReturn

definition close_chan :: "chan \<Rightarrow> chan exec" where
  "close_chan c =
     (case c of
        NilCh \<Rightarrow> Panic ''close of nil channel''
      | OpenCh \<Rightarrow> Done ClosedCh
      | ClosedCh \<Rightarrow> Panic ''close of closed channel'')"

text \<open>Sequencing of two calls: the second runs only if the first returned.\<close>

definition and_then :: "'a exec \<Rightarrow> ('a \<Rightarrow> 'b exec) \<Rightarrow> 'b exec" where
  "and_then m f = (case m of Done x \<Rightarrow> f x | Panic p \<Rightarrow> Panic p | NoReturn \<Rightarrow> NoReturn)"

section \<open>The tunnel session\<close>

datatype PodPhase = PodPending | PodRunning | PodSucceeded | PodFailed | PodUnknown

text \<open>Modelled from the spec: the declaration of \<open>AppPod\<close> is not among the sources.
  The spec's AppEndpoint has an app identifier, a namespace, a pod name, an HTTP
  service port and a secondary application port, and exposes the pod's run state;
  the fields are named as the source reads them (\<open>app.pod.Status.Phase\<close> is \<open>Phase\<close>).
\<close>

record AppPod =
  AppID :: string
  Namespace :: string
  PodName :: string
  HTTPPort :: int
  AppPort :: int
  Phase :: PodPhase

text \<open>
  The cluster configuration is an opaque handle. Go's \<open>int\<close> has 64 bits; the ports
  are only stored, compared and printed, never computed with, so they are integers.
\<close>

type_synonym rest_config = string

record PortForward =
  Config :: rest_config
  Method :: string
  URL :: string
  Host :: string
  LocalPort :: int
  RemotePort :: int
  EmitLogs :: bool
  App :: "AppPod option"
  StopCh :: chan
  ReadyCh :: chan

text \<open>\<open>Stop\<close> is \<open>close(pf.StopCh)\<close> and nothing else.\<close>

definition Stop :: "PortForward \<Rightarrow> PortForward exec" where
  "Stop pf = and_then (close_chan (StopCh pf)) (\<lambda>c. Done (pf\<lparr>StopCh := c\<rparr>))"

definition GetStop :: "PortForward \<Rightarrow> chan" where
  "GetStop pf = StopCh pf"

subsection \<open>External collaborators\<close>

text \<open>The cluster client, as far as the resolver uses it: the workloads it can see.\<close>

type_synonym k8s_client = "(string \<times> AppPod) list"

text \<open>Modelled from the spec: \<open>GetAppPod\<close>, the workload resolver, is not among the
  sources. The spec has it map an identifier to an endpoint, and has the resolution
  of an identifier that does not exist yield a ResolutionError containing the
  identifier.
\<close>

definition GetAppPod :: "k8s_client \<Rightarrow> string \<Rightarrow> error + AppPod" where
  "GetAppPod client appID =
     (case map_of client appID of
        None \<Rightarrow> Inl (ErrorString (''ResolutionError: '' @ appID))
      | Some app \<Rightarrow> Inr app)"

text \<open>\<open>portforward.ForwardedPort\<close>: both ports are \<open>uint16\<close>.\<close>

record ForwardedPort =
  Local :: "16 word"
  Remote :: "16 word"

text \<open>
  What the background call \<open>fw.ForwardPorts()\<close> has done by the time the
  \<open>select\<close> of \<open>Init\<close> commits: closed the ready channel and kept forwarding,
  returned a non-nil error without closing it, closed it and then returned a
  non-nil error, or neither. Closing the ready channel is how the forwarder
  signals that its listeners are bound.
\<close>

datatype fw_run = FwReady | FwFails error | FwReadyThenFails error | FwSilent

record http_request =
  reqMethod :: string
  reqURL :: string
  reqBody :: "byte list"
  reqHeader :: "(string \<times> string) list"

text \<open>\<open>Body\<close> is what \<open>ioutil.ReadAll(response.Body)\<close> yields.\<close>

record http_response =
  StatusCode :: int
  Body :: "error + byte list"

text \<open>One return of \<open>connect.ReadMessage()\<close>.\<close>

datatype read_result = ReadFrame int "byte list" | ReadErr error

text \<open>
  The answers of the collaborators during one call. \<open>connect_ReadMessage\<close> is the
  script of the successive reads of the connection; after the script the peer sends
  nothing more and the next read blocks. \<open>select_takes_failure\<close> is the choice Go
  makes when both cases of the \<open>select\<close> in \<open>Init\<close> are ready.
  \<open>fw_port\<close> is the port pair the forwarder holds: \<open>Init\<close> asks for exactly one.
  \<open>ReadyCh_send\<close> says that some other holder of the session sends a value on its
  exported \<open>ReadyCh\<close> while \<open>Init\<close> waits; the forwarder itself never sends, it
  closes the channel.
  No interrupt signal arrives during the call (the signal handler exits the process).
\<close>

record env =
  kubernetes_GetKubeConfigClient :: "error + rest_config \<times> k8s_client"
  k8s_NewForConfig :: "rest_config \<Rightarrow> error option"
  rest_URL :: "rest_config \<Rightarrow> string \<Rightarrow> string \<Rightarrow> string"
  spdy_RoundTripperFor :: "rest_config \<Rightarrow> error option"
  portforward_NewOnAddresses :: "string list \<Rightarrow> string list \<Rightarrow> error option"
  fw_ForwardPorts :: fw_run
  select_takes_failure :: bool
  fw_port :: ForwardedPort
  ReadyCh_send :: bool
  api_RuntimeAPIVersion :: string
  http_NewRequest :: "string \<Rightarrow> string \<Rightarrow> error option"
  httpc_Do :: "http_request \<Rightarrow> error + http_response"
  dialer_Dial :: "string \<Rightarrow> error option"
  connect_WriteMessage :: "int \<Rightarrow> byte list \<Rightarrow> error option"
  connect_ReadMessage :: "read_result list"
  app_Request :: "AppPod \<Rightarrow> string \<Rightarrow> string \<Rightarrow> byte list \<Rightarrow> error option"
  result_Raw :: "error + byte list"

text \<open>What a call does to the outside, in order.\<close>

datatype print_arg = PString string | PBytes "byte list" | PError error

datatype event =
    ForwardPortsStarted
  | Println print_arg
  | HttpDo http_request
  | RespBodyClose
  | WsDial string
  | WsWrite int "byte list"
  | WsRead
  | ConnClose

subsection \<open>NewPortForward and Init\<close>

definition NewPortForward ::
  "env \<Rightarrow> rest_config \<Rightarrow> string \<Rightarrow> string \<Rightarrow> string \<Rightarrow> int \<Rightarrow> int \<Rightarrow> bool
     \<Rightarrow> error + PortForward" where
  "NewPortForward env config namespace podName host localPort remotePort emitLogs =
     (case k8s_NewForConfig env config of
        Some err \<Rightarrow> Inl (Errorf_w ''error get k8s client: %w'' err)
      | None \<Rightarrow>
          Inr \<lparr>Config = config, Method = ''POST'',
               URL = rest_URL env config namespace podName,
               Host = host, LocalPort = localPort, RemotePort = remotePort,
               EmitLogs = emitLogs, App = None,
               StopCh = OpenCh, ReadyCh = OpenCh\<rparr>)"

text \<open>
  The ready channel after the forwarder has acted, for a channel that was not closed
  before: becoming ready closes an open channel (a nil one is skipped).
\<close>

definition forwarder_ready :: "fw_run \<Rightarrow> chan \<Rightarrow> chan" where
  "forwarder_ready run readyCh =
     (case run of
        FwReady \<Rightarrow> (if readyCh = OpenCh then ClosedCh else readyCh)
      | FwReadyThenFails err \<Rightarrow> (if readyCh = OpenCh then ClosedCh else readyCh)
      | FwFails err \<Rightarrow> readyCh
      | FwSilent \<Rightarrow> readyCh)"

text \<open>The goroutine sends on \<open>failure\<close> exactly when \<open>ForwardPorts\<close> returned non-nil.\<close>

definition forwarder_failure :: "fw_run \<Rightarrow> error option" where
  "forwarder_failure run =
     (case run of
        FwReady \<Rightarrow> None
      | FwFails err \<Rightarrow> Some err
      | FwReadyThenFails err \<Rightarrow> Some err
      | FwSilent \<Rightarrow> None)"

text \<open>
  \<open>fw.GetPorts()\<close> of client-go answers from the ready channel of the forwarder: the
  ports once that channel is closed, an error while it is still open or when there
  is none.
\<close>

definition GetPorts :: "env \<Rightarrow> chan \<Rightarrow> error + ForwardedPort list" where
  "GetPorts env readyCh =
     (case readyCh of
        NilCh \<Rightarrow> Inl (ErrorString ''no Ready channel provided'')
      | OpenCh \<Rightarrow> Inl (ErrorString ''listeners not ready'')
      | ClosedCh \<Rightarrow> Inr [fw_port env])"

text \<open>
  A receive from the ready channel is possible once the channel is closed, or while
  it is open and a value is being sent on it; never on a nil channel.
\<close>

definition ready_receivable :: "chan \<Rightarrow> bool \<Rightarrow> bool" where
  "ready_receivable readyCh sent \<longleftrightarrow> readyCh = ClosedCh \<or> (readyCh = OpenCh \<and> sent)"

text \<open>
  The \<open>select\<close> of \<open>Init\<close>: the ready case needs a possible receive from the ready
  channel, the failure case an error being sent on \<open>failure\<close>; with both possible
  Go chooses, with neither the call blocks.
\<close>

datatype select_case = CaseReady | CaseFailure error | CaseNone

definition select_ready_failure :: "bool \<Rightarrow> error option \<Rightarrow> bool \<Rightarrow> select_case" where
  "select_ready_failure ready failure takes_failure =
     (case failure of
        None \<Rightarrow> (if ready then CaseReady else CaseNone)
      | Some err \<Rightarrow> (if ready \<and> \<not> takes_failure then CaseReady else CaseFailure err))"

text \<open>
  The ready case of the \<open>select\<close>: the ports are read back and stored only when
  \<open>GetPorts\<close> returns no error; \<open>ports[0]\<close> on an empty slice is Go's index panic.
\<close>

definition Init_ready ::
  "env \<Rightarrow> PortForward \<Rightarrow> error option exec \<times> PortForward \<times> event list" where
  "Init_ready env pf =
     (case GetPorts env (ReadyCh pf) of
        Inr ports \<Rightarrow>
          (case ports of
             [] \<Rightarrow> (Panic ''index out of range [0] with length 0'', pf, [ForwardPortsStarted])
           | p # ps \<Rightarrow>
               (Done None,
                pf\<lparr>LocalPort := uint (Local p), RemotePort := uint (Remote p)\<rparr>,
                [ForwardPortsStarted]))
      | Inl err \<Rightarrow> (Done None, pf, [ForwardPortsStarted]))"

text \<open>
  \<open>Init\<close> returns its error result, the session as it leaves it and its events.
  On a session whose ready channel is already closed the \<open>select\<close> commits at once,
  before the forwarder has run. Otherwise the forwarder acts first; a value sent on
  a channel that the forwarder has closed is Go's panic of the sender. The two
  writers chosen by \<open>EmitLogs\<close> only receive the forwarder's log lines and are left
  out.
\<close>

definition Init :: "env \<Rightarrow> PortForward \<Rightarrow> error option exec \<times> PortForward \<times> event list" where
  "Init env pf =
     (case spdy_RoundTripperFor env (Config pf) of
        Some err \<Rightarrow> (Done (Some (Errorf_w ''error creat spdy round tripper: %w'' err)), pf, [])
      | None \<Rightarrow>
     (case portforward_NewOnAddresses env [Host pf]
             [Sprintf ''%d:%d'' [I (LocalPort pf), I (RemotePort pf)]] of
        Some err \<Rightarrow> (Done (Some (Errorf_w ''error creat portforward: %w'' err)), pf, [])
      | None \<Rightarrow>
          (if ReadyCh pf = ClosedCh then Init_ready env pf
           else
             (let readyCh = forwarder_ready (fw_ForwardPorts env) (ReadyCh pf) in
              if ReadyCh_send env \<and> readyCh = ClosedCh
              then (Panic ''send on closed channel'', pf\<lparr>ReadyCh := readyCh\<rparr>,
                    [ForwardPortsStarted])
              else
                (case select_ready_failure (ready_receivable readyCh (ReadyCh_send env))
                        (forwarder_failure (fw_ForwardPorts env)) (select_takes_failure env) of
                   CaseReady \<Rightarrow> Init_ready env (pf\<lparr>ReadyCh := readyCh\<rparr>)
                 | CaseFailure err \<Rightarrow>
                     (Done (Some err), pf\<lparr>ReadyCh := readyCh\<rparr>, [ForwardPortsStarted])
                 | CaseNone \<Rightarrow> (NoReturn, pf\<lparr>ReadyCh := readyCh\<rparr>, [ForwardPortsStarted]))))))"

section \<open>The relays\<close>

text \<open>What a relay call leaves behind: how it ended, the session it built (in its
  final state, \<open>None\<close> when none was built) and its events.\<close>

record call =
  ret :: "(error + string) exec"
  session :: "PortForward option"
  trace :: "event list"

subsection \<open>One-shot invoke\<close>

definition invoke :: "env \<Rightarrow> AppPod \<Rightarrow> string \<Rightarrow> byte list \<Rightarrow> string \<Rightarrow> error + string" where
  "invoke env app method data verb =
     (case app_Request env app verb method data of
        Some err \<Rightarrow> Inl (Errorf_w ''error get request: %w'' err)
      | None \<Rightarrow>
     (case result_Raw env of
        Inl err \<Rightarrow> Inl (Errorf_w ''error get raw: %w'' err)
      | Inr rawbody \<Rightarrow>
          (if length rawbody > 0 then Inr (string_of_bytes rawbody) else Inr [])))"

definition makeEndpoint :: "env \<Rightarrow> AppPod \<Rightarrow> PortForward \<Rightarrow> string \<Rightarrow> string" where
  "makeEndpoint env app pf method =
     Sprintf ''http://127.0.0.1:%s/v%s/invoke/%s/method/%s''
       [S (Sprintf ''%v'' [I (LocalPort pf)]), S (api_RuntimeAPIVersion env),
        S (AppID app), S method]"

definition makeWsEndpoint :: "PortForward \<Rightarrow> string \<Rightarrow> string" where
  "makeWsEndpoint pf method =
     Sprintf ''ws://127.0.0.1:%s/%s'' [S (Sprintf ''%v'' [I (LocalPort pf)]), S method]"

definition handleResponse :: "http_response \<Rightarrow> error + string" where
  "handleResponse response =
     (case Body response of
        Inl err \<Rightarrow> Inl (Errorf_w ''error read http response: %w'' err)
      | Inr rb \<Rightarrow> (if length rb > 0 then Inr (string_of_bytes rb) else Inr []))"

definition InvokeByPortForward ::
  "env \<Rightarrow> string \<Rightarrow> string \<Rightarrow> byte list \<Rightarrow> string \<Rightarrow> call" where
  "InvokeByPortForward env pluginID method data verb =
     (case kubernetes_GetKubeConfigClient env of
        Inl err \<Rightarrow>
          \<lparr>ret = Done (Inl (Errorf_w ''get kube config error: %w'' err)),
           session = None, trace = []\<rparr>
      | Inr (config, client) \<Rightarrow>
     (case GetAppPod client pluginID of
        Inl err \<Rightarrow> \<lparr>ret = Done (Inl err), session = None, trace = []\<rparr>
      | Inr app \<Rightarrow>
     (case NewPortForward env config (Namespace app) (PodName app)
             ''127.0.0.1'' 0 (HTTPPort app) False of
        Inl err \<Rightarrow> \<lparr>ret = Done (Inl err), session = None, trace = []\<rparr>
      | Inr portForward \<Rightarrow>
     (case Init env portForward of
        (Panic p, pf, evs) \<Rightarrow> \<lparr>ret = Panic p, session = Some pf, trace = evs\<rparr>
      | (NoReturn, pf, evs) \<Rightarrow> \<lparr>ret = NoReturn, session = Some pf, trace = evs\<rparr>
      | (Done None, pf, evs) \<Rightarrow>
          (let url = makeEndpoint env app pf method in
           case http_NewRequest env verb url of
             Some err \<Rightarrow>
               \<lparr>ret = Done (Inl (Errorf_w ''error creat http request: %w'' err)),
                session = Some pf, trace = evs @ [Println (PString url)]\<rparr>
           | None \<Rightarrow>
               (let req = \<lparr>reqMethod = verb, reqURL = url, reqBody = data,
                           reqHeader = [(''Content-Type'', ''application/json'')]\<rparr> in
                case httpc_Do env req of
                  Inl err \<Rightarrow>
                    \<lparr>ret = Done (Inl (Errorf_w ''error do http request: %w'' err)),
                     session = Some pf,
                     trace = evs @ [Println (PString url), HttpDo req]\<rparr>
                | Inr r \<Rightarrow>
                    \<lparr>ret = Done (handleResponse r), session = Some pf,
                     trace = evs @ [Println (PString url), HttpDo req, RespBodyClose]\<rparr>))
      | (Done (Some err), pf, evs) \<Rightarrow>
          (case Stop pf of
             Done pf' \<Rightarrow> \<lparr>ret = Done (Inr []), session = Some pf', trace = evs\<rparr>
           | Panic p \<Rightarrow> \<lparr>ret = Panic p, session = Some pf, trace = evs\<rparr>
           | NoReturn \<Rightarrow> \<lparr>ret = NoReturn, session = Some pf, trace = evs\<rparr>)))))"

subsection \<open>Streaming\<close>

definition getPortforward :: "env \<Rightarrow> string \<Rightarrow> error + PortForward" where
  "getPortforward env pluginID =
     (case kubernetes_GetKubeConfigClient env of
        Inl err \<Rightarrow> Inl (Errorf_w ''get kube config error: %w'' err)
      | Inr (config, client) \<Rightarrow>
     (case GetAppPod client pluginID of
        Inl err \<Rightarrow> Inl err
      | Inr app \<Rightarrow>
          (if Phase app \<noteq> PodRunning
           then Inl (Errorf_s ''no running pods found for %s'' pluginID)
           else NewPortForward env config (Namespace app) (PodName app)
                  ''127.0.0.1'' 0 (AppPort app) False)))"

text \<open>The message kinds of gorilla/websocket (the opcodes of RFC 6455).\<close>

definition TextMessage :: int where "TextMessage = 1"
definition BinaryMessage :: int where "BinaryMessage = 2"
definition CloseMessage :: int where "CloseMessage = 8"
definition PingMessage :: int where "PingMessage = 9"
definition PongMessage :: int where "PongMessage = 10"

text \<open>The \<open>switch\<close> on the kind of a frame that was read: what it prints.\<close>

definition switch_messageType :: "int \<Rightarrow> byte list \<Rightarrow> event list" where
  "switch_messageType messageType messageData =
     (if messageType = TextMessage then [Println (PString (string_of_bytes messageData))]
      else if messageType = BinaryMessage then [Println (PBytes messageData)]
      else if messageType = CloseMessage then []
      else if messageType = PingMessage then []
      else if messageType = PongMessage then []
      else [])"

text \<open>
  The \<open>for\<close> loop of \<open>WebsocketByPortForward\<close> over the script of reads. Its only
  exit is the \<open>return\<close> on a read error; at the end of the script the call is
  blocked in \<open>ReadMessage\<close>.
\<close>

fun recvLoop :: "read_result list \<Rightarrow> (error + string) exec \<times> event list" where
  "recvLoop [] = (NoReturn, [WsRead])"
| "recvLoop (ReadErr err # rs) =
     (Done (Inl (errors_Wrap err ''websocket read error'')), [WsRead])"
| "recvLoop (ReadFrame messageType messageData # rs) =
     (case recvLoop rs of
        (r, evs) \<Rightarrow> (r, WsRead # switch_messageType messageType messageData @ evs))"

text \<open>A return below \<open>defer portForward.Stop()\<close>: \<open>Stop\<close> runs last.\<close>

definition return_deferred_Stop :: "error + string \<Rightarrow> PortForward \<Rightarrow> event list \<Rightarrow> call" where
  "return_deferred_Stop r pf evs =
     (case Stop pf of
        Done pf' \<Rightarrow> \<lparr>ret = Done r, session = Some pf', trace = evs\<rparr>
      | Panic p \<Rightarrow> \<lparr>ret = Panic p, session = Some pf, trace = evs\<rparr>
      | NoReturn \<Rightarrow> \<lparr>ret = NoReturn, session = Some pf, trace = evs\<rparr>)"

definition WebsocketByPortForward :: "env \<Rightarrow> string \<Rightarrow> string \<Rightarrow> byte list \<Rightarrow> call" where
  "WebsocketByPortForward env pluginID method data =
     (case getPortforward env pluginID of
        Inl err \<Rightarrow> \<lparr>ret = Done (Inl err), session = None, trace = []\<rparr>
      | Inr portForward \<Rightarrow>
     (case Init env portForward of
        (Panic p, pf, evs) \<Rightarrow> \<lparr>ret = Panic p, session = Some pf, trace = evs\<rparr>
      | (NoReturn, pf, evs) \<Rightarrow> \<lparr>ret = NoReturn, session = Some pf, trace = evs\<rparr>
      | (Done (Some err), pf, evs) \<Rightarrow>
          \<lparr>ret = Done (Inr []), session = Some pf, trace = evs\<rparr>
      | (Done None, pf, evs) \<Rightarrow>
          (let url = makeWsEndpoint pf method in
           case dialer_Dial env url of
             Some err \<Rightarrow>
               return_deferred_Stop (Inl (errors_Wrap err ''connect error'')) pf
                 (evs @ [Println (PString url), WsDial url, Println (PError err)])
           | None \<Rightarrow>
          (case connect_WriteMessage env TextMessage data of
             Some err \<Rightarrow>
               return_deferred_Stop (Inl (errors_Wrap err ''websocket write error'')) pf
                 (evs @ [Println (PString url), WsDial url, WsWrite TextMessage data,
                         Println (PError err), ConnClose, RespBodyClose])
           | None \<Rightarrow>
          (case recvLoop (connect_ReadMessage env) of
             (Done r, evs') \<Rightarrow>
               return_deferred_Stop r pf
                 (evs @ [Println (PString url), WsDial url, WsWrite TextMessage data]
                    @ evs' @ [ConnClose, RespBodyClose])
           | (Panic p, evs') \<Rightarrow>
               \<lparr>ret = Panic p, session = Some pf,
                trace = evs @ [Println (PString url), WsDial url, WsWrite TextMessage data]
                          @ evs'\<rparr>
           | (NoReturn, evs') \<Rightarrow>
               \<lparr>ret = NoReturn, session = Some pf,
                trace = evs @ [Println (PString url), WsDial url, WsWrite TextMessage data]
                          @ evs'\<rparr>)))))"

section \<open>Notions used in the statements\<close>

text \<open>\<open>Init\<close> gets as far as starting the forwarder: both constructors succeeded.\<close>

definition forwarder_created :: "env \<Rightarrow> PortForward \<Rightarrow> bool" where
  "forwarder_created env pf \<longleftrightarrow>
     spdy_RoundTripperFor env (Config pf) = None \<and>
     portforward_NewOnAddresses env [Host pf]
       [Sprintf ''%d:%d'' [I (LocalPort pf), I (RemotePort pf)]] = None"

text \<open>
  The forwarder closed the ready channel and the \<open>select\<close> received from it: either
  nothing failed, or a later failure lost Go's choice.
\<close>

definition ready_wins :: "env \<Rightarrow> bool" where
  "ready_wins env =
     (case fw_ForwardPorts env of
        FwReady \<Rightarrow> True
      | FwReadyThenFails err \<Rightarrow> \<not> select_takes_failure env
      | FwFails err \<Rightarrow> False
      | FwSilent \<Rightarrow> False)"



text \<open>A script of reads that delivers the given frames, in order, and no error.\<close>

definition read_frames :: "(int \<times> byte list) list \<Rightarrow> read_result list" where
  "read_frames frames =
     map (\<lambda>(messageType, messageData). ReadFrame messageType messageData) frames"

section \<open>Concrete runs\<close>

text \<open>A cluster with one running workload, \<open>core\<close>, and one that is pending, \<open>batch\<close>.\<close>

definition app_core :: AppPod where
  "app_core = \<lparr>AppID = ''core'', Namespace = ''tkeel'', PodName = ''core-0'',
                HTTPPort = 3500, AppPort = 6789, Phase = PodRunning\<rparr>"

definition app_batch :: AppPod where
  "app_batch = \<lparr>AppID = ''batch'', Namespace = ''tkeel'', PodName = ''batch-0'',
                 HTTPPort = 3500, AppPort = 7000, Phase = PodPending\<rparr>"

text \<open>
  Every collaborator succeeds: the forwarder becomes ready on local port 40123, the
  HTTP endpoint answers 200 with body \<open>running\<close>, the stream delivers a text frame,
  a binary frame and a ping and then closes (a read error).
\<close>

definition cluster_pods :: k8s_client where
  "cluster_pods = [(''core'', app_core), (''batch'', app_batch)]"

definition env_ok :: env where
  "env_ok =
     \<lparr>kubernetes_GetKubeConfigClient = Inr (''cluster'', cluster_pods),
      k8s_NewForConfig = (\<lambda>config. None),
      rest_URL = (\<lambda>config namespace podName. config @ ''/'' @ namespace @ ''/'' @ podName),
      spdy_RoundTripperFor = (\<lambda>config. None),
      portforward_NewOnAddresses = (\<lambda>addresses ports. None),
      fw_ForwardPorts = FwReady,
      select_takes_failure = False,
      fw_port = \<lparr>Local = 40123, Remote = 3500\<rparr>,
      ReadyCh_send = False,
      api_RuntimeAPIVersion = ''1'',
      http_NewRequest = (\<lambda>verb url. None),
      httpc_Do =
        (\<lambda>req. Inr \<lparr>StatusCode = 200, Body = Inr (bytes_of_string ''running'')\<rparr>),
      dialer_Dial = (\<lambda>url. None),
      connect_WriteMessage = (\<lambda>messageType data. None),
      connect_ReadMessage =
        [ReadFrame 1 (bytes_of_string ''hi''), ReadFrame 2 [1, 2], ReadFrame 9 [],
         ReadErr (ErrorString ''close 1000'')],
      app_Request = (\<lambda>app verb method data. None),
      result_Raw = Inr (bytes_of_string ''running'')\<rparr>"

text \<open>The dial of the forwarder fails before it is ready.\<close>

definition env_dial_fails :: env where
  "env_dial_fails = env_ok\<lparr>fw_ForwardPorts := FwFails (ErrorString ''dial failed'')\<rparr>"


text \<open>The session \<open>NewPortForward\<close> builds for \<open>core\<close> in \<open>InvokeByPortForward\<close>.\<close>

definition session_core :: PortForward where
  "session_core =
     \<lparr>Config = ''cluster'', Method = ''POST'', URL = ''cluster/tkeel/core-0'',
      Host = ''127.0.0.1'', LocalPort = 0, RemotePort = 3500, EmitLogs = False,
      App = None, StopCh = OpenCh, ReadyCh = OpenCh\<rparr>"

text \<open>The session \<open>NewPortForward\<close> builds for \<open>core\<close> in \<open>getPortforward\<close>.\<close>

definition session_core_app :: PortForward where
  "session_core_app = session_core\<lparr>RemotePort := 6789\<rparr>"

text \<open>The forwarder of a stream session reports the application port of \<open>core\<close>.\<close>

definition env_ws :: env where
  "env_ws = env_ok\<lparr>fw_port := \<lparr>Local = 40123, Remote = 6789\<rparr>\<rparr>"

text \<open>The stream stays open: three frames and then silence.\<close>

definition env_ws_open :: env where
  "env_ws_open =
     env_ws\<lparr>connect_ReadMessage :=
              read_frames [(1, bytes_of_string ''hi''), (2, [1, 2]), (10, [])]\<rparr>"

text \<open>The two sessions after a successful \<open>Init\<close>.\<close>

definition session_ready :: PortForward where
  "session_ready = session_core\<lparr>LocalPort := 40123, RemotePort := 3500, ReadyCh := ClosedCh\<rparr>"

definition session_ready_app :: PortForward where
  "session_ready_app =
     session_core_app\<lparr>LocalPort := 40123, RemotePort := 6789, ReadyCh := ClosedCh\<rparr>"

text \<open>A 200 response with body \<open>running\<close>, and a response without a body.\<close>

definition response_running :: http_response where
  "response_running = \<lparr>StatusCode = 200, Body = Inr (bytes_of_string ''running'')\<rparr>"

definition response_empty :: http_response where
  "response_empty = \<lparr>StatusCode = 204, Body = Inr []\<rparr>"

definition env_empty_body :: env where
  "env_empty_body = env_ok\<lparr>result_Raw := Inr []\<rparr>"

section \<open>Properties\<close>

subsection \<open>Bytes, strings and errors\<close>

lemma unat_byte_mod: "unat (a :: byte) mod 256 = unat a"
proof -
  have "unat a < 256"
    using unsigned_less [of a, where 'a = nat] by simp
  then show ?thesis by simp
qed

lemma char_byte_char: "char_of (unat (word_of_nat (of_char a) :: byte)) = a"
proof -
  have "unat (word_of_nat (of_char a) :: byte) = (of_char a :: nat) mod 256"
    by (simp add: unat_of_nat)
  then show ?thesis by (simp add: char_of_mod_256)
qed

lemma string_of_bytes_inverse: "bytes_of_string (string_of_bytes bs) = bs"
  by (induction bs) (simp_all add: bytes_of_string_def string_of_bytes_def unat_byte_mod)

lemma bytes_of_string_inverse: "string_of_bytes (bytes_of_string s) = s"
  by (induction s) (simp_all add: bytes_of_string_def string_of_bytes_def char_byte_char)

lemma string_of_bytes_length: "length (string_of_bytes bs) = length bs"
  by (simp add: string_of_bytes_def)

lemma bytes_of_string_length: "length (bytes_of_string s) = length s"
  by (simp add: bytes_of_string_def)

text \<open>Both ways of wrapping keep the cause and put the stage label in front of its message.\<close>

lemma errors_Wrap_cause:
  "Unwrap (errors_Wrap err message) = Some err \<and>
   Error (errors_Wrap err message) = message @ '': '' @ Error err"
  by (simp add: errors_Wrap_def)

lemma Errorf_w_cause: "Unwrap (Errorf_w format err) = Some err"
  by (simp add: Errorf_w_def)

lemma Errorf_w_kube_config:
  "Error (Errorf_w ''get kube config error: %w'' err) = ''get kube config error: '' @ Error err"
  by (simp add: Errorf_w_def)

subsection \<open>Stop\<close>

lemma Stop_open: "StopCh pf = OpenCh \<Longrightarrow> Stop pf = Done (pf\<lparr>StopCh := ClosedCh\<rparr>)"
  by (simp add: Stop_def and_then_def close_chan_def)

lemma Stop_closed: "StopCh pf = ClosedCh \<Longrightarrow> Stop pf = Panic ''close of closed channel''"
  by (simp add: Stop_def and_then_def close_chan_def)

text \<open>
  C1, as stated, fails: \<open>Stop\<close> is a bare \<open>close\<close> of the stop channel, so on the
  session that \<open>NewPortForward\<close> builds the first call closes the channel and the
  second call, made right after it, panics with Go's \<open>close of closed channel\<close>.
\<close>

theorem Stop_twice_panics:
  "Stop session_core = Done (session_core\<lparr>StopCh := ClosedCh\<rparr>) \<and>
   and_then (Stop session_core) Stop = Panic ''close of closed channel''"
  by (simp add: Stop_def and_then_def close_chan_def session_core_def)

text \<open>
  C1, amended: on every session whose stop channel is open, the first \<open>Stop()\<close>
  returns and leaves the channel closed (the stop signal), and a second \<open>Stop()\<close> in
  sequence panics; \<open>Stop\<close> has no guard that would make it idempotent.
\<close>

theorem Stop_not_idempotent:
  "StopCh pf = OpenCh \<Longrightarrow>
     Stop pf = Done (pf\<lparr>StopCh := ClosedCh\<rparr>) \<and>
     and_then (Stop pf) Stop = Panic ''close of closed channel''"
  by (simp add: Stop_def and_then_def close_chan_def)

theorem Stop_not_idempotent_witness:
  "StopCh session_core = OpenCh \<and>
   Stop session_core = Done (session_core\<lparr>StopCh := ClosedCh\<rparr>) \<and>
   and_then (Stop session_core) Stop = Panic ''close of closed channel''"
proof -
  have open_ch: "StopCh session_core = OpenCh"
    by (simp add: session_core_def)
  show ?thesis
    by (rule conjI [OF open_ch Stop_not_idempotent [OF open_ch]])
qed

subsection \<open>Endpoints\<close>

lemma itoa_40123: "itoa 40123 = ''40123''"
  by (simp add: itoa_def digits.simps)

text \<open>
  C4: for every session, app endpoint and method, the HTTP target is
  \<open>http://127.0.0.1:<local-port>/v<api-version>/invoke/<app-id>/method/<method>\<close> and
  the stream target is \<open>ws://127.0.0.1:<local-port>/<method>\<close>, where the local port is
  the session's \<open>LocalPort\<close> in decimal and the API version is the constant
  \<open>api.RuntimeAPIVersion\<close> of the imported package.
\<close>

theorem relay_endpoint_formats:
  "makeEndpoint env app pf method =
     ''http://127.0.0.1:'' @ itoa (LocalPort pf) @ ''/v'' @ api_RuntimeAPIVersion env
       @ ''/invoke/'' @ AppID app @ ''/method/'' @ method \<and>
   makeWsEndpoint pf method = ''ws://127.0.0.1:'' @ itoa (LocalPort pf) @ ''/'' @ method"
  by (simp add: makeEndpoint_def makeWsEndpoint_def)

text \<open>The scenario of the spec: \<open>core\<close>, \<open>status\<close>, API version 1, port 40123.\<close>

lemma makeEndpoint_core_status:
  "makeEndpoint env_ok app_core (session_core\<lparr>LocalPort := 40123\<rparr>) ''status'' =
     ''http://127.0.0.1:40123/v1/invoke/core/method/status''"
  by (simp add: makeEndpoint_def env_ok_def app_core_def session_core_def itoa_40123)

subsection \<open>Init\<close>

lemma Init_ready_StopCh: "Init_ready env pf = (r, pf', evs) \<Longrightarrow> StopCh pf' = StopCh pf"
  by (auto simp: Init_ready_def split: sum.splits list.splits)

lemma Init_ready_events:
  "Init_ready env pf = (r, pf', evs) \<Longrightarrow> set evs \<subseteq> {ForwardPortsStarted}"
  by (auto simp: Init_ready_def split: sum.splits list.splits)

lemma Init_StopCh: "Init env pf = (r, pf', evs) \<Longrightarrow> StopCh pf' = StopCh pf"
  by (auto simp: Init_def Let_def dest: Init_ready_StopCh
      split: option.splits select_case.splits if_splits)

lemma Init_events: "Init env pf = (r, pf', evs) \<Longrightarrow> set evs \<subseteq> {ForwardPortsStarted}"
  by (auto simp: Init_def Let_def dest: Init_ready_events
      split: option.splits select_case.splits if_splits)

lemma Init_no_read: "Init env pf = (r, pf', evs) \<Longrightarrow> WsRead \<notin> set evs \<and> WsWrite t d \<notin> set evs"
  using Init_events [of env pf r pf' evs] by auto

lemma NewPortForward_fresh:
  "NewPortForward env config namespace podName host localPort remotePort emitLogs = Inr pf \<Longrightarrow>
     StopCh pf = OpenCh \<and> ReadyCh pf = OpenCh \<and>
     LocalPort pf = localPort \<and> RemotePort pf = remotePort"
  by (auto simp: NewPortForward_def split: option.splits)

text \<open>Once the forwarder has closed the ready channel, the read-back cannot fail.\<close>

lemma GetPorts_closed: "GetPorts env ClosedCh = Inr [fw_port env]"
  by (simp add: GetPorts_def)

lemma GetPorts_fails_iff: "(\<exists>e. GetPorts env readyCh = Inl e) \<longleftrightarrow> readyCh \<noteq> ClosedCh"
  by (cases readyCh) (simp_all add: GetPorts_def)

lemma Init_ready_select:
  assumes "forwarder_created env pf" and "ReadyCh pf = OpenCh" and "\<not> ReadyCh_send env"
      and "ready_wins env"
  shows "Init env pf =
           (Done None,
            pf\<lparr>LocalPort := uint (Local (fw_port env)),
               RemotePort := uint (Remote (fw_port env)), ReadyCh := ClosedCh\<rparr>,
            [ForwardPortsStarted])"
  using assms
  by (auto simp: Init_def Init_ready_def GetPorts_def Let_def forwarder_created_def
        ready_wins_def forwarder_ready_def forwarder_failure_def select_ready_failure_def
        ready_receivable_def
      split: fw_run.splits)

lemma Init_failure_select:
  assumes "forwarder_created env pf" and "ReadyCh pf = OpenCh" and "\<not> ReadyCh_send env"
      and "fw_ForwardPorts env = FwFails err"
  shows "Init env pf = (Done (Some err), pf, [ForwardPortsStarted])"
proof -
  have "pf\<lparr>ReadyCh := OpenCh\<rparr> = pf"
    using assms(2) by simp
  with assms show ?thesis
    by (simp add: Init_def Let_def forwarder_created_def forwarder_ready_def
          forwarder_failure_def select_ready_failure_def ready_receivable_def)
qed


lemma forwarder_created_core: "forwarder_created env_ok session_core"
  by (simp add: forwarder_created_def env_ok_def)


text \<open>
  C3: once the forwarder is started on a session whose ready channel is open, and
  with nobody but the forwarder acting on that channel, \<open>Init\<close> races readiness
  against failure. If the ready signal (the forwarder closing the ready channel)
  wins the \<open>select\<close>, the port pair of the forwarder is read back, its local and
  remote port are stored into the session and \<open>Init\<close> returns success. If the
  forwarder fails before it is ready, \<open>Init\<close> returns that very error, the session is
  unchanged and its ready channel is still open: the ready signal has not fired.
\<close>

theorem Init_race:
  assumes "forwarder_created env pf" and "ReadyCh pf = OpenCh" and "\<not> ReadyCh_send env"
  shows "(ready_wins env \<longrightarrow>
            GetPorts env ClosedCh = Inr [fw_port env] \<and>
            Init env pf =
              (Done None,
               pf\<lparr>LocalPort := uint (Local (fw_port env)),
                  RemotePort := uint (Remote (fw_port env)), ReadyCh := ClosedCh\<rparr>,
               [ForwardPortsStarted])) \<and>
         (\<forall>err. fw_ForwardPorts env = FwFails err \<longrightarrow>
            Init env pf = (Done (Some err), pf, [ForwardPortsStarted]) \<and>
            ReadyCh pf = OpenCh)"
  using assms by (auto simp: Init_ready_select Init_failure_select GetPorts_closed)

theorem Init_race_witness:
  "forwarder_created env_ok session_core \<and> ReadyCh session_core = OpenCh \<and>
   \<not> ReadyCh_send env_ok \<and> ready_wins env_ok \<and>
   Init env_ok session_core =
     (Done None,
      session_core\<lparr>LocalPort := 40123, RemotePort := 3500, ReadyCh := ClosedCh\<rparr>,
      [ForwardPortsStarted]) \<and>
   fw_ForwardPorts env_dial_fails = FwFails (ErrorString ''dial failed'') \<and>
   Init env_dial_fails session_core =
     (Done (Some (ErrorString ''dial failed'')), session_core, [ForwardPortsStarted])"
proof -
  have open_ch: "ReadyCh session_core = OpenCh"
    by (simp add: session_core_def)
  have created: "forwarder_created env_ok session_core"
    by (rule forwarder_created_core)
  have created_df: "forwarder_created env_dial_fails session_core"
    by (simp add: forwarder_created_def env_dial_fails_def env_ok_def)
  have alone: "\<not> ReadyCh_send env_ok"
    by (simp add: env_ok_def)
  have alone_df: "\<not> ReadyCh_send env_dial_fails"
    by (simp add: env_dial_fails_def env_ok_def)
  have wins: "ready_wins env_ok"
    by (simp add: ready_wins_def env_ok_def)
  have port: "fw_port env_ok = \<lparr>Local = 40123, Remote = 3500\<rparr>"
    by (simp add: env_ok_def)
  have fails: "fw_ForwardPorts env_dial_fails = FwFails (ErrorString ''dial failed'')"
    by (simp add: env_dial_fails_def)
  have "Init env_ok session_core =
          (Done None,
           session_core\<lparr>LocalPort := 40123, RemotePort := 3500, ReadyCh := ClosedCh\<rparr>,
           [ForwardPortsStarted])"
    using Init_race [OF created open_ch alone] wins port by simp
  moreover have "Init env_dial_fails session_core =
          (Done (Some (ErrorString ''dial failed'')), session_core, [ForwardPortsStarted])"
    using Init_race [OF created_df open_ch alone_df] fails by simp
  ultimately show ?thesis
    using open_ch created alone wins fails by simp
qed



subsection \<open>The concrete runs\<close>

lemma kube_ok: "kubernetes_GetKubeConfigClient env_ok = Inr (''cluster'', cluster_pods)"
  by (simp add: env_ok_def)

lemma GetAppPod_core: "GetAppPod cluster_pods ''core'' = Inr app_core"
  by (simp add: GetAppPod_def cluster_pods_def)

lemma GetAppPod_batch: "GetAppPod cluster_pods ''batch'' = Inr app_batch"
  by (simp add: GetAppPod_def cluster_pods_def)

lemma GetAppPod_ghost:
  "GetAppPod cluster_pods ''ghost'' = Inl (ErrorString ''ResolutionError: ghost'')"
  by (simp add: GetAppPod_def cluster_pods_def)

lemma NewPortForward_core:
  "NewPortForward env_ok ''cluster'' (Namespace app_core) (PodName app_core)
     ''127.0.0.1'' 0 (HTTPPort app_core) False = Inr session_core"
  by (simp add: NewPortForward_def env_ok_def app_core_def session_core_def)

lemma Init_core: "Init env_ok session_core = (Done None, session_ready, [ForwardPortsStarted])"
  by (simp add: Init_def env_ok_def session_core_def session_ready_def forwarder_ready_def
        forwarder_failure_def select_ready_failure_def ready_receivable_def
        Init_ready_def GetPorts_def Let_def close_chan_def)

lemma getPortforward_core: "getPortforward env_ws ''core'' = Inr session_core_app"
  by (simp add: getPortforward_def env_ws_def kube_ok GetAppPod_core NewPortForward_def
        env_ok_def app_core_def session_core_app_def session_core_def)

lemma Init_core_app:
  "Init env_ws session_core_app = (Done None, session_ready_app, [ForwardPortsStarted])"
  by (simp add: Init_def env_ws_def env_ok_def session_core_app_def session_core_def
        session_ready_app_def forwarder_ready_def forwarder_failure_def
        select_ready_failure_def ready_receivable_def
        Init_ready_def GetPorts_def Let_def close_chan_def)

lemma makeWsEndpoint_core: "makeWsEndpoint session_ready_app ''ws'' = ''ws://127.0.0.1:40123/ws''"
  by (simp add: makeWsEndpoint_def session_ready_app_def session_core_app_def session_core_def itoa_40123)

lemma dial_ws: "dialer_Dial env_ws (makeWsEndpoint session_ready_app ''ws'') = None"
  by (simp add: env_ws_def env_ok_def)

lemma write_ws: "connect_WriteMessage env_ws TextMessage (bytes_of_string ''hello'') = None"
  by (simp add: env_ws_def env_ok_def)

lemma script_ws:
  "connect_ReadMessage env_ws =
     read_frames [(1, bytes_of_string ''hi''), (2, [1, 2]), (9, [])]
       @ ReadErr (ErrorString ''close 1000'') # []"
  by (simp add: env_ws_def env_ok_def read_frames_def)

lemma getPortforward_core_open: "getPortforward env_ws_open ''core'' = Inr session_core_app"
  by (simp add: getPortforward_def env_ws_open_def env_ws_def kube_ok GetAppPod_core
        NewPortForward_def env_ok_def app_core_def session_core_app_def session_core_def)

lemma Init_core_app_open:
  "Init env_ws_open session_core_app = (Done None, session_ready_app, [ForwardPortsStarted])"
  by (simp add: Init_def env_ws_open_def env_ws_def env_ok_def session_core_app_def
        session_core_def session_ready_app_def forwarder_ready_def forwarder_failure_def
        select_ready_failure_def ready_receivable_def
        Init_ready_def GetPorts_def Let_def close_chan_def)

subsection \<open>Resolution\<close>

lemma getPortforward_fresh: "getPortforward env pluginID = Inr pf \<Longrightarrow> StopCh pf = OpenCh"
  by (auto simp: getPortforward_def split: sum.splits if_splits dest: NewPortForward_fresh)

lemma GetAppPod_error:
  "GetAppPod client appID = Inl e \<Longrightarrow> e = ErrorString (''ResolutionError: '' @ appID)"
  by (auto simp: GetAppPod_def split: option.splits)

lemma sublist_ResolutionError: "sublist appID (Error (ErrorString (''ResolutionError: '' @ appID)))"
proof -
  have "sublist appID (''ResolutionError: '' @ appID)"
    by (rule sublist_append_leftI)
  then show ?thesis by simp
qed

lemma sublist_no_running: "sublist pluginID (Error (Errorf_s ''no running pods found for %s'' pluginID))"
proof -
  have "Error (Errorf_s ''no running pods found for %s'' pluginID) =
          ''no running pods found for '' @ pluginID"
    by (simp add: Errorf_s_def)
  moreover have "sublist pluginID (''no running pods found for '' @ pluginID)"
    by (rule sublist_append_leftI)
  ultimately show ?thesis by simp
qed

text \<open>
  What the acquisition paths do guard: with the cluster client at hand, an
  identifier whose resolution fails makes \<open>getPortforward\<close>,
  \<open>WebsocketByPortForward\<close> and \<open>InvokeByPortForward\<close> return the resolver's error,
  and an identifier resolved to a pod that is not running makes \<open>getPortforward\<close>
  and \<open>WebsocketByPortForward\<close> return an error; in both cases the message of the
  error contains the identifier, no session is built and nothing is started (no
  event, so no listener).
\<close>

lemma unresolved_identifier_builds_no_session:
  assumes "kubernetes_GetKubeConfigClient env = Inr (config, client)"
  shows "(\<forall>e. GetAppPod client pluginID = Inl e \<longrightarrow>
            sublist pluginID (Error e) \<and>
            getPortforward env pluginID = Inl e \<and>
            WebsocketByPortForward env pluginID method data =
              \<lparr>ret = Done (Inl e), session = None, trace = []\<rparr> \<and>
            InvokeByPortForward env pluginID method data verb =
              \<lparr>ret = Done (Inl e), session = None, trace = []\<rparr>) \<and>
         (\<forall>app. GetAppPod client pluginID = Inr app \<and> Phase app \<noteq> PodRunning \<longrightarrow>
            (\<exists>e. sublist pluginID (Error e) \<and>
                 getPortforward env pluginID = Inl e \<and>
                 WebsocketByPortForward env pluginID method data =
                   \<lparr>ret = Done (Inl e), session = None, trace = []\<rparr>))"
proof (intro conjI allI impI)
  fix e
  assume unresolved: "GetAppPod client pluginID = Inl e"
  from GetAppPod_error [OF unresolved] show "sublist pluginID (Error e)"
    using sublist_ResolutionError [of pluginID] by simp
  from assms unresolved show g: "getPortforward env pluginID = Inl e"
    by (simp add: getPortforward_def)
  from g show "WebsocketByPortForward env pluginID method data =
      \<lparr>ret = Done (Inl e), session = None, trace = []\<rparr>"
    by (simp add: WebsocketByPortForward_def)
  from assms unresolved show "InvokeByPortForward env pluginID method data verb =
      \<lparr>ret = Done (Inl e), session = None, trace = []\<rparr>"
    by (simp add: InvokeByPortForward_def)
next
  fix app
  assume "GetAppPod client pluginID = Inr app \<and> Phase app \<noteq> PodRunning"
  with assms have g: "getPortforward env pluginID =
      Inl (Errorf_s ''no running pods found for %s'' pluginID)"
    by (simp add: getPortforward_def)
  then have "WebsocketByPortForward env pluginID method data =
      \<lparr>ret = Done (Inl (Errorf_s ''no running pods found for %s'' pluginID)),
       session = None, trace = []\<rparr>"
    by (simp add: WebsocketByPortForward_def)
  with g sublist_no_running [of pluginID]
  show "\<exists>e. sublist pluginID (Error e) \<and>
            getPortforward env pluginID = Inl e \<and>
            WebsocketByPortForward env pluginID method data =
              \<lparr>ret = Done (Inl e), session = None, trace = []\<rparr>"
    by blast
qed

lemma unresolved_identifier_builds_no_session_witness:
  "kubernetes_GetKubeConfigClient env_ok = Inr (''cluster'', cluster_pods) \<and>
   GetAppPod cluster_pods ''ghost'' = Inl (ErrorString ''ResolutionError: ghost'') \<and>
   sublist ''ghost'' (Error (ErrorString ''ResolutionError: ghost'')) \<and>
   WebsocketByPortForward env_ok ''ghost'' ''status'' [] =
     \<lparr>ret = Done (Inl (ErrorString ''ResolutionError: ghost'')), session = None, trace = []\<rparr> \<and>
   InvokeByPortForward env_ok ''ghost'' ''status'' [] ''GET'' =
     \<lparr>ret = Done (Inl (ErrorString ''ResolutionError: ghost'')), session = None, trace = []\<rparr> \<and>
   GetAppPod cluster_pods ''batch'' = Inr app_batch \<and> Phase app_batch \<noteq> PodRunning \<and>
   (\<exists>e. sublist ''batch'' (Error e) \<and>
        getPortforward env_ok ''batch'' = Inl e \<and>
        WebsocketByPortForward env_ok ''batch'' ''status'' [] =
          \<lparr>ret = Done (Inl e), session = None, trace = []\<rparr>)"
proof -
  have pending: "Phase app_batch \<noteq> PodRunning"
    by (simp add: app_batch_def)
  note ghost =
    unresolved_identifier_builds_no_session
      [OF kube_ok, of "''ghost''" "''status''" "[]" "''GET''"]
  note batch =
    unresolved_identifier_builds_no_session
      [OF kube_ok, of "''batch''" "''status''" "[]" "''GET''"]
  from ghost GetAppPod_ghost
  have "sublist ''ghost'' (Error (ErrorString ''ResolutionError: ghost'')) \<and>
        WebsocketByPortForward env_ok ''ghost'' ''status'' [] =
          \<lparr>ret = Done (Inl (ErrorString ''ResolutionError: ghost'')), session = None,
           trace = []\<rparr> \<and>
        InvokeByPortForward env_ok ''ghost'' ''status'' [] ''GET'' =
          \<lparr>ret = Done (Inl (ErrorString ''ResolutionError: ghost'')), session = None,
           trace = []\<rparr>"
    by simp
  moreover from batch GetAppPod_batch pending
  have "\<exists>e. sublist ''batch'' (Error e) \<and>
          getPortforward env_ok ''batch'' = Inl e \<and>
          WebsocketByPortForward env_ok ''batch'' ''status'' [] =
            \<lparr>ret = Done (Inl e), session = None, trace = []\<rparr>"
    by simp
  ultimately show ?thesis
    using kube_ok GetAppPod_ghost GetAppPod_batch pending by simp
qed

text \<open>
  C8 fails on the code: the test of the pod's phase is in \<open>getPortforward\<close> only.
  For the identifier \<open>batch\<close>, resolved to a pending pod, \<open>getPortforward\<close> returns
  the error \<open>no running pods found for batch\<close>, but \<open>InvokeByPortForward\<close> builds a
  session, starts the forwarder, sends the request and returns the body with a nil
  error.
\<close>

theorem InvokeByPortForward_pending_pod:
  "GetAppPod cluster_pods ''batch'' = Inr app_batch \<and> Phase app_batch = PodPending \<and>
   getPortforward env_ok ''batch'' = Inl (ErrorString ''no running pods found for batch'') \<and>
   ret (InvokeByPortForward env_ok ''batch'' ''status'' [] ''GET'') = Done (Inr ''running'') \<and>
   session (InvokeByPortForward env_ok ''batch'' ''status'' [] ''GET'') =
     Some (session_ready\<lparr>URL := ''cluster/tkeel/batch-0''\<rparr>) \<and>
   trace (InvokeByPortForward env_ok ''batch'' ''status'' [] ''GET'') =
     [ForwardPortsStarted,
      Println (PString ''http://127.0.0.1:40123/v1/invoke/batch/method/status''),
      HttpDo \<lparr>reqMethod = ''GET'',
              reqURL = ''http://127.0.0.1:40123/v1/invoke/batch/method/status'',
              reqBody = [], reqHeader = [(''Content-Type'', ''application/json'')]\<rparr>,
      RespBodyClose]"
proof -
  have phase: "Phase app_batch = PodPending"
    by (simp add: app_batch_def)
  have guarded: "getPortforward env_ok ''batch'' =
      Inl (ErrorString ''no running pods found for batch'')"
    by (simp add: getPortforward_def kube_ok GetAppPod_batch phase Errorf_s_def)
  have url: "makeEndpoint env_ok app_batch (session_ready\<lparr>URL := ''cluster/tkeel/batch-0''\<rparr>)
      ''status'' = ''http://127.0.0.1:40123/v1/invoke/batch/method/status''"
    by (simp add: makeEndpoint_def env_ok_def app_batch_def session_ready_def
          session_core_def itoa_40123)
  have new: "NewPortForward env_ok ''cluster'' (Namespace app_batch) (PodName app_batch)
      ''127.0.0.1'' 0 (HTTPPort app_batch) False =
      Inr (session_core\<lparr>URL := ''cluster/tkeel/batch-0''\<rparr>)"
    by (simp add: NewPortForward_def env_ok_def app_batch_def session_core_def)
  have init: "Init env_ok (session_core\<lparr>URL := ''cluster/tkeel/batch-0''\<rparr>) =
      (Done None, session_ready\<lparr>URL := ''cluster/tkeel/batch-0''\<rparr>, [ForwardPortsStarted])"
    by (simp add: Init_def env_ok_def session_core_def session_ready_def forwarder_ready_def
          forwarder_failure_def select_ready_failure_def ready_receivable_def
          Init_ready_def GetPorts_def Let_def)
  have request: "http_NewRequest env_ok ''GET''
      ''http://127.0.0.1:40123/v1/invoke/batch/method/status'' = None"
    by (simp add: env_ok_def)
  have answer: "httpc_Do env_ok
      \<lparr>reqMethod = ''GET'',
       reqURL = ''http://127.0.0.1:40123/v1/invoke/batch/method/status'',
       reqBody = [], reqHeader = [(''Content-Type'', ''application/json'')]\<rparr> =
      Inr response_running"
    by (simp add: env_ok_def response_running_def)
  have body: "handleResponse response_running = Inr ''running''"
    by (simp add: handleResponse_def response_running_def bytes_of_string_length
          bytes_of_string_inverse)
  have "InvokeByPortForward env_ok ''batch'' ''status'' [] ''GET'' =
      \<lparr>ret = Done (Inr ''running''),
       session = Some (session_ready\<lparr>URL := ''cluster/tkeel/batch-0''\<rparr>),
       trace =
         [ForwardPortsStarted,
          Println (PString ''http://127.0.0.1:40123/v1/invoke/batch/method/status''),
          HttpDo \<lparr>reqMethod = ''GET'',
                  reqURL = ''http://127.0.0.1:40123/v1/invoke/batch/method/status'',
                  reqBody = [], reqHeader = [(''Content-Type'', ''application/json'')]\<rparr>,
          RespBodyClose]\<rparr>"
    by (simp add: InvokeByPortForward_def kube_ok GetAppPod_batch new init url request
          answer body Let_def)
  with GetAppPod_batch phase guarded show ?thesis
    by simp
qed

subsection \<open>One-shot invoke\<close>

lemma InvokeByPortForward_Init_ok:
  assumes "kubernetes_GetKubeConfigClient env = Inr (config, client)"
      and "GetAppPod client pluginID = Inr app"
      and "NewPortForward env config (Namespace app) (PodName app)
             ''127.0.0.1'' 0 (HTTPPort app) False = Inr pf0"
      and "Init env pf0 = (Done None, pf, evs)"
  shows "\<exists>r evs'. InvokeByPortForward env pluginID method data verb =
           \<lparr>ret = Done r, session = Some pf, trace = evs @ evs'\<rparr>"
  using assms
  by (auto simp: InvokeByPortForward_def Let_def split: option.splits sum.splits)

lemma InvokeByPortForward_Init_error:
  assumes "kubernetes_GetKubeConfigClient env = Inr (config, client)"
      and "GetAppPod client pluginID = Inr app"
      and "NewPortForward env config (Namespace app) (PodName app)
             ''127.0.0.1'' 0 (HTTPPort app) False = Inr pf0"
      and "Init env pf0 = (Done (Some err), pf, evs)"
  shows "InvokeByPortForward env pluginID method data verb =
           \<lparr>ret = Done (Inr []), session = Some (pf\<lparr>StopCh := ClosedCh\<rparr>), trace = evs\<rparr>"
proof -
  have "StopCh pf = OpenCh"
    using Init_StopCh [OF assms(4)] NewPortForward_fresh [OF assms(3)] by simp
  then have "Stop pf = Done (pf\<lparr>StopCh := ClosedCh\<rparr>)"
    by (rule Stop_open)
  with assms show ?thesis
    by (simp add: InvokeByPortForward_def)
qed

lemma WebsocketByPortForward_Init_error:
  assumes "getPortforward env pluginID = Inr pf0"
      and "Init env pf0 = (Done (Some err), pf, evs)"
  shows "WebsocketByPortForward env pluginID method data =
           \<lparr>ret = Done (Inr []), session = Some pf, trace = evs\<rparr>"
  using assms by (simp add: WebsocketByPortForward_def)

text \<open>
  C2 fails on the code: when \<open>Init\<close> returns an error (here the forwarder's dial
  fails before it is ready), both relays drop it and return the empty string with
  a nil error.
\<close>

theorem Init_error_swallowed:
  "Init env_dial_fails session_core =
     (Done (Some (ErrorString ''dial failed'')), session_core, [ForwardPortsStarted]) \<and>
   ret (InvokeByPortForward env_dial_fails ''core'' ''status'' [] ''GET'') = Done (Inr []) \<and>
   Init env_dial_fails session_core_app =
     (Done (Some (ErrorString ''dial failed'')), session_core_app, [ForwardPortsStarted]) \<and>
   ret (WebsocketByPortForward env_dial_fails ''core'' ''status'' []) = Done (Inr [])"
  by (simp add: InvokeByPortForward_def WebsocketByPortForward_def getPortforward_def
        GetAppPod_def NewPortForward_def Init_def env_dial_fails_def env_ok_def
        cluster_pods_def session_core_def session_core_app_def app_core_def forwarder_ready_def
        forwarder_failure_def select_ready_failure_def ready_receivable_def
        Init_ready_def GetPorts_def Let_def Stop_def and_then_def close_chan_def)

text \<open>
  C10: in \<open>InvokeByPortForward\<close>, once the session is built, \<open>Stop()\<close> runs only on
  the path where \<open>Init()\<close> returns an error (the stop channel is then closed). When
  \<open>Init()\<close> succeeds the call returns, whichever of its three return paths it takes,
  with the stop channel of its session still open: the tunnel is never released.
\<close>

theorem InvokeByPortForward_stops_only_after_failed_Init:
  assumes "kubernetes_GetKubeConfigClient env = Inr (config, client)"
      and "GetAppPod client pluginID = Inr app"
      and "NewPortForward env config (Namespace app) (PodName app)
             ''127.0.0.1'' 0 (HTTPPort app) False = Inr pf0"
  shows "(Init env pf0 = (Done None, pf, evs) \<longrightarrow>
            (\<exists>r. ret (InvokeByPortForward env pluginID method data verb) = Done r) \<and>
            session (InvokeByPortForward env pluginID method data verb) = Some pf \<and>
            StopCh pf = OpenCh) \<and>
         (Init env pf0 = (Done (Some err), pf, evs) \<longrightarrow>
            session (InvokeByPortForward env pluginID method data verb) =
              Some (pf\<lparr>StopCh := ClosedCh\<rparr>))"
proof (intro conjI impI)
  assume ok: "Init env pf0 = (Done None, pf, evs)"
  from InvokeByPortForward_Init_ok [OF assms ok, of "method" "data" "verb"]
  obtain r evs' where c: "InvokeByPortForward env pluginID method data verb =
      \<lparr>ret = Done r, session = Some pf, trace = evs @ evs'\<rparr>"
    by blast
  from c show "\<exists>r. ret (InvokeByPortForward env pluginID method data verb) = Done r"
    by simp
  from c show "session (InvokeByPortForward env pluginID method data verb) = Some pf"
    by simp
  show "StopCh pf = OpenCh"
    using Init_StopCh [OF ok] NewPortForward_fresh [OF assms(3)] by simp
next
  assume "Init env pf0 = (Done (Some err), pf, evs)"
  from InvokeByPortForward_Init_error [OF assms this, of "method" "data" "verb"]
  show "session (InvokeByPortForward env pluginID method data verb) =
          Some (pf\<lparr>StopCh := ClosedCh\<rparr>)"
    by simp
qed

theorem InvokeByPortForward_stops_only_after_failed_Init_witness:
  "kubernetes_GetKubeConfigClient env_ok = Inr (''cluster'', cluster_pods) \<and>
   GetAppPod cluster_pods ''core'' = Inr app_core \<and>
   NewPortForward env_ok ''cluster'' (Namespace app_core) (PodName app_core)
     ''127.0.0.1'' 0 (HTTPPort app_core) False = Inr session_core \<and>
   Init env_ok session_core = (Done None, session_ready, [ForwardPortsStarted]) \<and>
   (\<exists>r. ret (InvokeByPortForward env_ok ''core'' ''status'' [] ''GET'') = Done r) \<and>
   session (InvokeByPortForward env_ok ''core'' ''status'' [] ''GET'') = Some session_ready \<and>
   StopCh session_ready = OpenCh \<and>
   Init env_dial_fails session_core =
     (Done (Some (ErrorString ''dial failed'')), session_core, [ForwardPortsStarted]) \<and>
   session (InvokeByPortForward env_dial_fails ''core'' ''status'' [] ''GET'') =
     Some (session_core\<lparr>StopCh := ClosedCh\<rparr>)"
proof -
  have kube_df: "kubernetes_GetKubeConfigClient env_dial_fails = Inr (''cluster'', cluster_pods)"
    by (simp add: env_dial_fails_def env_ok_def)
  have new_df: "NewPortForward env_dial_fails ''cluster'' (Namespace app_core) (PodName app_core)
      ''127.0.0.1'' 0 (HTTPPort app_core) False = Inr session_core"
    by (simp add: NewPortForward_def env_dial_fails_def env_ok_def app_core_def session_core_def)
  have init_df: "Init env_dial_fails session_core =
      (Done (Some (ErrorString ''dial failed'')), session_core, [ForwardPortsStarted])"
    by (simp add: Init_def env_dial_fails_def env_ok_def session_core_def forwarder_ready_def
          forwarder_failure_def select_ready_failure_def ready_receivable_def
        Init_ready_def GetPorts_def Let_def)
  note succeeds =
    InvokeByPortForward_stops_only_after_failed_Init
      [OF kube_ok GetAppPod_core NewPortForward_core,
       of session_ready "[ForwardPortsStarted]" "''status''" "[]" "''GET''"]
  note fails =
    InvokeByPortForward_stops_only_after_failed_Init
      [OF kube_df GetAppPod_core new_df,
       of session_core "[ForwardPortsStarted]" "''status''" "[]" "''GET''"
          "ErrorString ''dial failed''"]
  from succeeds Init_core
  have "(\<exists>r. ret (InvokeByPortForward env_ok ''core'' ''status'' [] ''GET'') = Done r) \<and>
        session (InvokeByPortForward env_ok ''core'' ''status'' [] ''GET'') = Some session_ready \<and>
        StopCh session_ready = OpenCh"
    by simp
  moreover from fails init_df
  have "session (InvokeByPortForward env_dial_fails ''core'' ''status'' [] ''GET'') =
          Some (session_core\<lparr>StopCh := ClosedCh\<rparr>)"
    by simp
  ultimately show ?thesis
    using kube_ok GetAppPod_core NewPortForward_core Init_core init_df by simp
qed

lemma handleResponse_body: "Body response = Inr rb \<Longrightarrow> handleResponse response = Inr (string_of_bytes rb)"
  by (simp add: handleResponse_def string_of_bytes_def)

lemma invoke_body:
  "app_Request env app verb method data = None \<Longrightarrow> result_Raw env = Inr rawbody \<Longrightarrow>
     invoke env app method data verb = Inr (string_of_bytes rawbody)"
  by (simp add: invoke_def string_of_bytes_def)

lemma InvokeByPortForward_response:
  assumes "kubernetes_GetKubeConfigClient env = Inr (config, client)"
      and "GetAppPod client pluginID = Inr app"
      and "NewPortForward env config (Namespace app) (PodName app)
             ''127.0.0.1'' 0 (HTTPPort app) False = Inr pf0"
      and "Init env pf0 = (Done None, pf, evs)"
      and "http_NewRequest env verb (makeEndpoint env app pf method) = None"
      and "httpc_Do env \<lparr>reqMethod = verb, reqURL = makeEndpoint env app pf method,
                          reqBody = data,
                          reqHeader = [(''Content-Type'', ''application/json'')]\<rparr> = Inr response"
  shows "ret (InvokeByPortForward env pluginID method data verb) = Done (handleResponse response)"
  using assms by (simp add: InvokeByPortForward_def Let_def)

text \<open>
  C5: when the response body reads successfully, \<open>handleResponse\<close> returns exactly
  its bytes as a string (converting back gives the bytes read) with a nil error,
  and an empty body gives the empty string with a nil error; \<open>invoke\<close> does the same
  with the raw body of its result; and \<open>InvokeByPortForward\<close>, once the exchange
  succeeded, returns what \<open>handleResponse\<close> returns.
\<close>

theorem response_body_returned_unchanged:
  "(Body response = Inr rb \<longrightarrow>
      handleResponse response = Inr (string_of_bytes rb) \<and>
      bytes_of_string (string_of_bytes rb) = rb) \<and>
   (Body response = Inr [] \<longrightarrow> handleResponse response = Inr []) \<and>
   (app_Request env app verb method data = None \<and> result_Raw env = Inr rb \<longrightarrow>
      invoke env app method data verb = Inr (string_of_bytes rb)) \<and>
   (app_Request env app verb method data = None \<and> result_Raw env = Inr [] \<longrightarrow>
      invoke env app method data verb = Inr []) \<and>
   (kubernetes_GetKubeConfigClient env = Inr (config, client) \<and>
    GetAppPod client pluginID = Inr app \<and>
    NewPortForward env config (Namespace app) (PodName app)
      ''127.0.0.1'' 0 (HTTPPort app) False = Inr pf0 \<and>
    Init env pf0 = (Done None, pf, evs) \<and>
    http_NewRequest env verb (makeEndpoint env app pf method) = None \<and>
    httpc_Do env \<lparr>reqMethod = verb, reqURL = makeEndpoint env app pf method,
                   reqBody = data,
                   reqHeader = [(''Content-Type'', ''application/json'')]\<rparr> = Inr response \<and>
    Body response = Inr rb \<longrightarrow>
      ret (InvokeByPortForward env pluginID method data verb) = Done (Inr (string_of_bytes rb)))"
proof (intro conjI impI)
  assume "Body response = Inr rb"
  then show "handleResponse response = Inr (string_of_bytes rb)"
    by (rule handleResponse_body)
  show "bytes_of_string (string_of_bytes rb) = rb"
    by (rule string_of_bytes_inverse)
next
  assume "Body response = Inr []"
  then show "handleResponse response = Inr []"
    by (simp add: handleResponse_def)
next
  assume "app_Request env app verb method data = None \<and> result_Raw env = Inr rb"
  then show "invoke env app method data verb = Inr (string_of_bytes rb)"
    by (simp add: invoke_body)
next
  assume "app_Request env app verb method data = None \<and> result_Raw env = Inr []"
  then show "invoke env app method data verb = Inr []"
    by (simp add: invoke_def)
next
  assume a: "kubernetes_GetKubeConfigClient env = Inr (config, client) \<and>
    GetAppPod client pluginID = Inr app \<and>
    NewPortForward env config (Namespace app) (PodName app)
      ''127.0.0.1'' 0 (HTTPPort app) False = Inr pf0 \<and>
    Init env pf0 = (Done None, pf, evs) \<and>
    http_NewRequest env verb (makeEndpoint env app pf method) = None \<and>
    httpc_Do env \<lparr>reqMethod = verb, reqURL = makeEndpoint env app pf method,
                   reqBody = data,
                   reqHeader = [(''Content-Type'', ''application/json'')]\<rparr> = Inr response \<and>
    Body response = Inr rb"
  then have "ret (InvokeByPortForward env pluginID method data verb) = Done (handleResponse response)"
    using InvokeByPortForward_response
            [of env config client pluginID app pf0 pf evs verb "method" "data" response]
    by simp
  with a show "ret (InvokeByPortForward env pluginID method data verb) = Done (Inr (string_of_bytes rb))"
    by (simp add: handleResponse_body)
qed

theorem response_body_returned_unchanged_witness:
  "Body response_running = Inr (bytes_of_string ''running'') \<and>
   handleResponse response_running = Inr ''running'' \<and>
   Body response_empty = Inr [] \<and>
   handleResponse response_empty = Inr [] \<and>
   invoke env_ok app_core ''status'' [] ''GET'' = Inr ''running'' \<and>
   invoke env_empty_body app_core ''status'' [] ''GET'' = Inr [] \<and>
   ret (InvokeByPortForward env_ok ''core'' ''status'' [] ''GET'') = Done (Inr ''running'')"
proof -
  have body: "Body response_running = Inr (bytes_of_string ''running'')"
    by (simp add: response_running_def)
  have empty: "Body response_empty = Inr []"
    by (simp add: response_empty_def)
  have request: "app_Request env_ok app_core ''GET'' ''status'' [] = None"
    by (simp add: env_ok_def)
  have raw: "result_Raw env_ok = Inr (bytes_of_string ''running'')"
    by (simp add: env_ok_def)
  have request_e: "app_Request env_empty_body app_core ''GET'' ''status'' [] = None"
    by (simp add: env_empty_body_def env_ok_def)
  have raw_e: "result_Raw env_empty_body = Inr []"
    by (simp add: env_empty_body_def)
  have new_request:
    "http_NewRequest env_ok ''GET'' (makeEndpoint env_ok app_core session_ready ''status'') = None"
    by (simp add: env_ok_def)
  have do_request:
    "httpc_Do env_ok \<lparr>reqMethod = ''GET'',
                        reqURL = makeEndpoint env_ok app_core session_ready ''status'',
                        reqBody = [],
                        reqHeader = [(''Content-Type'', ''application/json'')]\<rparr> =
       Inr response_running"
    by (simp add: env_ok_def response_running_def)
  note running =
    response_body_returned_unchanged
      [of response_running "bytes_of_string ''running''" env_ok app_core "''GET''"
          "''status''" "[]" "''cluster''" cluster_pods "''core''" session_core
          session_ready "[ForwardPortsStarted]"]
  note bodyless =
    response_body_returned_unchanged
      [of response_empty "[]" env_empty_body app_core "''GET''"
          "''status''" "[]" "''cluster''" cluster_pods "''core''" session_core
          session_ready "[ForwardPortsStarted]"]
  from running body request raw kube_ok GetAppPod_core NewPortForward_core Init_core
    new_request do_request
  have "handleResponse response_running = Inr ''running'' \<and>
        invoke env_ok app_core ''status'' [] ''GET'' = Inr ''running'' \<and>
        ret (InvokeByPortForward env_ok ''core'' ''status'' [] ''GET'') = Done (Inr ''running'')"
    by (simp add: bytes_of_string_inverse)
  moreover from bodyless empty request_e raw_e
  have "handleResponse response_empty = Inr [] \<and>
        invoke env_empty_body app_core ''status'' [] ''GET'' = Inr []"
    by (simp add: string_of_bytes_def)
  ultimately show ?thesis
    using body empty by simp
qed

subsection \<open>Streaming\<close>

lemma recvLoop_frames: "fst (recvLoop (read_frames frames)) = NoReturn"
  by (induction frames) (auto simp: read_frames_def split: prod.splits)

lemma recvLoop_frames_err:
  "fst (recvLoop (read_frames frames @ ReadErr err # rest)) =
     Done (Inl (errors_Wrap err ''websocket read error''))"
  by (induction frames) (auto simp: read_frames_def split: prod.splits)

lemma recvLoop_events:
  "snd (recvLoop (read_frames frames @ rest)) =
     concat (map (\<lambda>(messageType, messageData).
                    WsRead # switch_messageType messageType messageData) frames)
       @ snd (recvLoop rest)"
  by (induction frames) (auto simp: read_frames_def split: prod.splits)

lemma script_cases:
  "(\<exists>frames. script = read_frames frames) \<or>
   (\<exists>frames err rest. script = read_frames frames @ ReadErr err # rest)"
proof (induction script)
  case Nil
  have "[] = read_frames []" by (simp add: read_frames_def)
  then show ?case by blast
next
  case (Cons r script)
  show ?case
  proof (cases r)
    case (ReadErr err)
    then have "r # script = read_frames [] @ ReadErr err # script"
      by (simp add: read_frames_def)
    then show ?thesis by blast
  next
    case (ReadFrame t d)
    from Cons.IH show ?thesis
    proof
      assume "\<exists>frames. script = read_frames frames"
      then obtain frames where "script = read_frames frames" ..
      with ReadFrame have "r # script = read_frames ((t, d) # frames)"
        by (simp add: read_frames_def)
      then show ?thesis by blast
    next
      assume "\<exists>frames err rest. script = read_frames frames @ ReadErr err # rest"
      then obtain frames err rest where "script = read_frames frames @ ReadErr err # rest"
        by blast
      with ReadFrame have "r # script = read_frames ((t, d) # frames) @ ReadErr err # rest"
        by (simp add: read_frames_def)
      then show ?thesis by blast
    qed
  qed
qed

lemma switch_no_IO: "set (switch_messageType t d) \<subseteq> range Println"
  by (auto simp: switch_messageType_def)

lemma recvLoop_no_write: "WsWrite t d \<notin> set (snd (recvLoop script))"
proof (induction script rule: recvLoop.induct)
  case 1
  then show ?case by simp
next
  case (2 err rs)
  then show ?case by simp
next
  case (3 messageType messageData rs)
  then show ?case
    using switch_no_IO [of messageType messageData]
    by (auto split: prod.splits)
qed

lemma recvLoop_no_Panic: "fst (recvLoop script) \<noteq> Panic p"
  by (induction script rule: recvLoop.induct) (auto split: prod.splits)

lemma return_deferred_Stop_open:
  "StopCh pf = OpenCh \<Longrightarrow>
     return_deferred_Stop r pf evs =
       \<lparr>ret = Done r, session = Some (pf\<lparr>StopCh := ClosedCh\<rparr>), trace = evs\<rparr>"
  by (simp add: return_deferred_Stop_def Stop_open)

lemma WebsocketByPortForward_loop:
  assumes "getPortforward env pluginID = Inr pf0"
      and "Init env pf0 = (Done None, pf, evs)"
      and "dialer_Dial env (makeWsEndpoint pf method) = None"
      and "connect_WriteMessage env TextMessage data = None"
  shows "ret (WebsocketByPortForward env pluginID method data) =
           fst (recvLoop (connect_ReadMessage env))"
    and "trace (WebsocketByPortForward env pluginID method data) =
           evs @ [Println (PString (makeWsEndpoint pf method)),
                  WsDial (makeWsEndpoint pf method), WsWrite TextMessage data]
             @ snd (recvLoop (connect_ReadMessage env))
             @ (case fst (recvLoop (connect_ReadMessage env)) of
                  Done r \<Rightarrow> [ConnClose, RespBodyClose] | Panic p \<Rightarrow> [] | NoReturn \<Rightarrow> [])"
proof -
  have open_ch: "StopCh pf = OpenCh"
    using Init_StopCh [OF assms(2)] getPortforward_fresh [OF assms(1)] by simp
  obtain r evs' where loop: "recvLoop (connect_ReadMessage env) = (r, evs')"
    by (cases "recvLoop (connect_ReadMessage env)")
  from assms loop open_ch
  show "ret (WebsocketByPortForward env pluginID method data) =
          fst (recvLoop (connect_ReadMessage env))"
    by (cases r) (simp_all add: WebsocketByPortForward_def Let_def return_deferred_Stop_open)
  from assms loop open_ch
  show "trace (WebsocketByPortForward env pluginID method data) =
           evs @ [Println (PString (makeWsEndpoint pf method)),
                  WsDial (makeWsEndpoint pf method), WsWrite TextMessage data]
             @ snd (recvLoop (connect_ReadMessage env))
             @ (case fst (recvLoop (connect_ReadMessage env)) of
                  Done r \<Rightarrow> [ConnClose, RespBodyClose] | Panic p \<Rightarrow> [] | NoReturn \<Rightarrow> [])"
    by (cases r) (simp_all add: WebsocketByPortForward_def Let_def return_deferred_Stop_open)
qed

lemma WebsocketByPortForward_write_fails:
  assumes "getPortforward env pluginID = Inr pf0"
      and "Init env pf0 = (Done None, pf, evs)"
      and "dialer_Dial env (makeWsEndpoint pf method) = None"
      and "connect_WriteMessage env TextMessage data = Some err"
  shows "WebsocketByPortForward env pluginID method data =
           \<lparr>ret = Done (Inl (errors_Wrap err ''websocket write error'')),
            session = Some (pf\<lparr>StopCh := ClosedCh\<rparr>),
            trace = evs @ [Println (PString (makeWsEndpoint pf method)),
                           WsDial (makeWsEndpoint pf method), WsWrite TextMessage data,
                           Println (PError err), ConnClose, RespBodyClose]\<rparr>"
proof -
  have open_ch: "StopCh pf = OpenCh"
    using Init_StopCh [OF assms(2)] getPortforward_fresh [OF assms(1)] by simp
  with assms show ?thesis
    by (simp add: WebsocketByPortForward_def Let_def return_deferred_Stop_open)
qed

text \<open>
  C7: once the payload is written, the receive loop of \<open>WebsocketByPortForward\<close>
  ends on a read error only. While the reads deliver frames and no error, however
  many, the call has not returned; when a read returns an error after any number
  of frames, the call returns that error wrapped as \<open>websocket read error\<close>; and
  whenever the call returns, it is with the wrapped error of such a read.
\<close>

theorem stream_loop_returns_only_on_read_error:
  assumes "getPortforward env pluginID = Inr pf0"
      and "Init env pf0 = (Done None, pf, evs)"
      and "dialer_Dial env (makeWsEndpoint pf method) = None"
      and "connect_WriteMessage env TextMessage data = None"
  shows "(\<forall>frames. connect_ReadMessage env = read_frames frames \<longrightarrow>
            ret (WebsocketByPortForward env pluginID method data) = NoReturn) \<and>
         (\<forall>frames err rest.
            connect_ReadMessage env = read_frames frames @ ReadErr err # rest \<longrightarrow>
            ret (WebsocketByPortForward env pluginID method data) =
              Done (Inl (errors_Wrap err ''websocket read error''))) \<and>
         (\<forall>r. ret (WebsocketByPortForward env pluginID method data) = Done r \<longrightarrow>
            (\<exists>frames err rest.
               connect_ReadMessage env = read_frames frames @ ReadErr err # rest \<and>
               r = Inl (errors_Wrap err ''websocket read error'')))"
proof -
  note ret_loop = WebsocketByPortForward_loop(1) [OF assms]
  show ?thesis
  proof (intro conjI allI impI)
    fix frames
    assume "connect_ReadMessage env = read_frames frames"
    with ret_loop show "ret (WebsocketByPortForward env pluginID method data) = NoReturn"
      by (simp add: recvLoop_frames)
  next
    fix frames err rest
    assume "connect_ReadMessage env = read_frames frames @ ReadErr err # rest"
    with ret_loop show "ret (WebsocketByPortForward env pluginID method data) =
        Done (Inl (errors_Wrap err ''websocket read error''))"
      by (simp add: recvLoop_frames_err)
  next
    fix r
    assume returned: "ret (WebsocketByPortForward env pluginID method data) = Done r"
    from script_cases [of "connect_ReadMessage env"]
    show "\<exists>frames err rest.
            connect_ReadMessage env = read_frames frames @ ReadErr err # rest \<and>
            r = Inl (errors_Wrap err ''websocket read error'')"
    proof
      assume "\<exists>frames. connect_ReadMessage env = read_frames frames"
      then obtain frames where "connect_ReadMessage env = read_frames frames" ..
      with ret_loop returned have False
        by (simp add: recvLoop_frames)
      then show ?thesis ..
    next
      assume "\<exists>frames err rest. connect_ReadMessage env = read_frames frames @ ReadErr err # rest"
      then obtain frames err rest
        where script: "connect_ReadMessage env = read_frames frames @ ReadErr err # rest"
        by blast
      with ret_loop returned have "r = Inl (errors_Wrap err ''websocket read error'')"
        by (simp add: recvLoop_frames_err)
      with script show ?thesis by blast
    qed
  qed
qed

theorem stream_loop_returns_only_on_read_error_witness:
  "getPortforward env_ws ''core'' = Inr session_core_app \<and>
   Init env_ws session_core_app = (Done None, session_ready_app, [ForwardPortsStarted]) \<and>
   dialer_Dial env_ws (makeWsEndpoint session_ready_app ''ws'') = None \<and>
   connect_WriteMessage env_ws TextMessage (bytes_of_string ''hello'') = None \<and>
   ret (WebsocketByPortForward env_ws ''core'' ''ws'' (bytes_of_string ''hello'')) =
     Done (Inl (errors_Wrap (ErrorString ''close 1000'') ''websocket read error'')) \<and>
   ret (WebsocketByPortForward env_ws_open ''core'' ''ws'' (bytes_of_string ''hello'')) =
     NoReturn"
proof -
  have dial_open: "dialer_Dial env_ws_open (makeWsEndpoint session_ready_app ''ws'') = None"
    by (simp add: env_ws_open_def env_ws_def env_ok_def)
  have write_open:
    "connect_WriteMessage env_ws_open TextMessage (bytes_of_string ''hello'') = None"
    by (simp add: env_ws_open_def env_ws_def env_ok_def)
  have script_open:
    "connect_ReadMessage env_ws_open =
       read_frames [(1, bytes_of_string ''hi''), (2, [1, 2]), (10, [])]"
    by (simp add: env_ws_open_def)
  note closing =
    stream_loop_returns_only_on_read_error
      [OF getPortforward_core Init_core_app dial_ws write_ws]
  note silent =
    stream_loop_returns_only_on_read_error
      [OF getPortforward_core_open Init_core_app_open dial_open write_open]
  from closing script_ws
  have "ret (WebsocketByPortForward env_ws ''core'' ''ws'' (bytes_of_string ''hello'')) =
          Done (Inl (errors_Wrap (ErrorString ''close 1000'') ''websocket read error''))"
    by blast
  moreover from silent script_open
  have "ret (WebsocketByPortForward env_ws_open ''core'' ''ws'' (bytes_of_string ''hello'')) =
          NoReturn"
    by blast
  ultimately show ?thesis
    using getPortforward_core Init_core_app dial_ws write_ws by simp
qed

text \<open>
  C6: after a successful connect, \<open>WebsocketByPortForward\<close> writes exactly one frame,
  a text frame carrying the caller's payload, and no read of the connection comes
  before it; nothing else is ever written. If the write succeeded, what follows is
  the receive loop (and, at a return, the deferred closes); if it failed, no read
  happens. In the loop every frame read is observed (\<open>WsRead\<close>) and classified by
  its kind: a text frame prints its payload as a string, a binary frame prints the
  raw bytes, and a close, ping or pong frame prints nothing.
\<close>

theorem stream_sends_payload_once_then_classifies:
  assumes "getPortforward env pluginID = Inr pf0"
      and "Init env pf0 = (Done None, pf, evs)"
      and "dialer_Dial env (makeWsEndpoint pf method) = None"
  shows "(\<exists>post.
            trace (WebsocketByPortForward env pluginID method data) =
              evs @ [Println (PString (makeWsEndpoint pf method)),
                     WsDial (makeWsEndpoint pf method), WsWrite TextMessage data] @ post \<and>
            WsRead \<notin> set evs \<and>
            (\<forall>t d. WsWrite t d \<notin> set evs \<and> WsWrite t d \<notin> set post) \<and>
            (connect_WriteMessage env TextMessage data = None \<longrightarrow>
               (\<exists>closing. post = snd (recvLoop (connect_ReadMessage env)) @ closing \<and>
                          set closing \<subseteq> {ConnClose, RespBodyClose})) \<and>
            (connect_WriteMessage env TextMessage data \<noteq> None \<longrightarrow> WsRead \<notin> set post)) \<and>
         (\<forall>frames rest.
            snd (recvLoop (read_frames frames @ rest)) =
              concat (map (\<lambda>(messageType, messageData).
                             WsRead # switch_messageType messageType messageData) frames)
                @ snd (recvLoop rest)) \<and>
         (\<forall>d. switch_messageType TextMessage d = [Println (PString (string_of_bytes d))]) \<and>
         (\<forall>d. switch_messageType BinaryMessage d = [Println (PBytes d)]) \<and>
         (\<forall>t d. t = CloseMessage \<or> t = PingMessage \<or> t = PongMessage \<longrightarrow>
            switch_messageType t d = [])"
proof -
  let ?url = "makeWsEndpoint pf method"
  let ?W = "WebsocketByPortForward env pluginID method data"
  have quiet: "WsRead \<notin> set evs" "\<And>t d. WsWrite t d \<notin> set evs"
    using Init_no_read [OF assms(2)] by simp_all
  have sent: "\<exists>post.
      trace ?W = evs @ [Println (PString ?url), WsDial ?url, WsWrite TextMessage data] @ post \<and>
      WsRead \<notin> set evs \<and>
      (\<forall>t d. WsWrite t d \<notin> set evs \<and> WsWrite t d \<notin> set post) \<and>
      (connect_WriteMessage env TextMessage data = None \<longrightarrow>
         (\<exists>closing. post = snd (recvLoop (connect_ReadMessage env)) @ closing \<and>
                    set closing \<subseteq> {ConnClose, RespBodyClose})) \<and>
      (connect_WriteMessage env TextMessage data \<noteq> None \<longrightarrow> WsRead \<notin> set post)"
  proof (cases "connect_WriteMessage env TextMessage data")
    case None
    let ?closing = "case fst (recvLoop (connect_ReadMessage env)) of
                      Done r \<Rightarrow> [ConnClose, RespBodyClose] | Panic p \<Rightarrow> [] | NoReturn \<Rightarrow> []"
    let ?post = "snd (recvLoop (connect_ReadMessage env)) @ ?closing"
    have closing: "set ?closing \<subseteq> {ConnClose, RespBodyClose}"
      by (cases "fst (recvLoop (connect_ReadMessage env))") simp_all
    have tr: "trace ?W =
        evs @ [Println (PString ?url), WsDial ?url, WsWrite TextMessage data] @ ?post"
      using WebsocketByPortForward_loop(2) [OF assms None] by simp
    have no_write: "\<And>t d. WsWrite t d \<notin> set ?post"
      using recvLoop_no_write closing by (auto split: exec.splits)
    show ?thesis
    proof (rule exI [of _ ?post], intro conjI allI impI)
      show "trace ?W =
          evs @ [Println (PString ?url), WsDial ?url, WsWrite TextMessage data] @ ?post"
        by (rule tr)
      show "WsRead \<notin> set evs" by (rule quiet)
      show "\<And>t d. WsWrite t d \<notin> set evs" by (rule quiet)
      show "\<And>t d. WsWrite t d \<notin> set ?post" by (rule no_write)
      show "\<exists>closing. ?post = snd (recvLoop (connect_ReadMessage env)) @ closing \<and>
              set closing \<subseteq> {ConnClose, RespBodyClose}"
        using closing by blast
      assume "connect_WriteMessage env TextMessage data \<noteq> None"
      with None show "WsRead \<notin> set ?post" by simp
    qed
  next
    case (Some err)
    let ?post = "[Println (PError err), ConnClose, RespBodyClose]"
    have tr: "trace ?W =
        evs @ [Println (PString ?url), WsDial ?url, WsWrite TextMessage data] @ ?post"
      using WebsocketByPortForward_write_fails [OF assms Some] by simp
    show ?thesis
    proof (rule exI [of _ ?post], intro conjI allI impI)
      show "trace ?W =
          evs @ [Println (PString ?url), WsDial ?url, WsWrite TextMessage data] @ ?post"
        by (rule tr)
      show "WsRead \<notin> set evs" by (rule quiet)
      show "\<And>t d. WsWrite t d \<notin> set evs" by (rule quiet)
      show "\<And>t d. WsWrite t d \<notin> set ?post" by simp
      show "WsRead \<notin> set ?post" by simp
      assume "connect_WriteMessage env TextMessage data = None"
      with Some show "\<exists>closing. ?post = snd (recvLoop (connect_ReadMessage env)) @ closing \<and>
              set closing \<subseteq> {ConnClose, RespBodyClose}" by simp
    qed
  qed
  have kinds: "\<And>t d. t = CloseMessage \<or> t = PingMessage \<or> t = PongMessage \<Longrightarrow>
      switch_messageType t d = []"
    by (auto simp: switch_messageType_def TextMessage_def BinaryMessage_def
          CloseMessage_def PingMessage_def PongMessage_def)
  have text_kind: "\<And>d. switch_messageType TextMessage d = [Println (PString (string_of_bytes d))]"
    by (simp add: switch_messageType_def)
  have binary_kind: "\<And>d. switch_messageType BinaryMessage d = [Println (PBytes d)]"
    by (simp add: switch_messageType_def TextMessage_def BinaryMessage_def)
  from sent recvLoop_events kinds text_kind binary_kind show ?thesis
    by blast
qed

theorem stream_sends_payload_once_then_classifies_witness:
  "getPortforward env_ws ''core'' = Inr session_core_app \<and>
   Init env_ws session_core_app = (Done None, session_ready_app, [ForwardPortsStarted]) \<and>
   dialer_Dial env_ws (makeWsEndpoint session_ready_app ''ws'') = None \<and>
   (\<exists>post.
      trace (WebsocketByPortForward env_ws ''core'' ''ws'' (bytes_of_string ''hello'')) =
        [ForwardPortsStarted, Println (PString ''ws://127.0.0.1:40123/ws''),
         WsDial ''ws://127.0.0.1:40123/ws'', WsWrite TextMessage (bytes_of_string ''hello'')]
          @ post \<and>
      (\<forall>t d. WsWrite t d \<notin> set post) \<and>
      (\<exists>closing. post = snd (recvLoop (connect_ReadMessage env_ws)) @ closing))"
proof -
  note sends =
    stream_sends_payload_once_then_classifies
      [OF getPortforward_core Init_core_app dial_ws,
       of "bytes_of_string ''hello''", THEN conjunct1]
  from sends obtain post where all:
    "trace (WebsocketByPortForward env_ws ''core'' ''ws'' (bytes_of_string ''hello'')) =
       [ForwardPortsStarted] @
       [Println (PString (makeWsEndpoint session_ready_app ''ws'')),
        WsDial (makeWsEndpoint session_ready_app ''ws''),
        WsWrite TextMessage (bytes_of_string ''hello'')] @ post \<and>
     WsRead \<notin> set [ForwardPortsStarted] \<and>
     (\<forall>t d. WsWrite t d \<notin> set [ForwardPortsStarted] \<and> WsWrite t d \<notin> set post) \<and>
     (connect_WriteMessage env_ws TextMessage (bytes_of_string ''hello'') = None \<longrightarrow>
        (\<exists>closing. post = snd (recvLoop (connect_ReadMessage env_ws)) @ closing \<and>
                   set closing \<subseteq> {ConnClose, RespBodyClose})) \<and>
     (connect_WriteMessage env_ws TextMessage (bytes_of_string ''hello'') \<noteq> None \<longrightarrow>
        WsRead \<notin> set post)" ..
  note tr = all [THEN conjunct1]
  note once = all [THEN conjunct2, THEN conjunct2, THEN conjunct1]
  note loop = all [THEN conjunct2, THEN conjunct2, THEN conjunct2, THEN conjunct1]
  from tr have tr': "trace (WebsocketByPortForward env_ws ''core'' ''ws'' (bytes_of_string ''hello'')) =
        [ForwardPortsStarted, Println (PString ''ws://127.0.0.1:40123/ws''),
         WsDial ''ws://127.0.0.1:40123/ws'', WsWrite TextMessage (bytes_of_string ''hello'')]
          @ post"
    by (simp add: makeWsEndpoint_core)
  from once have once': "\<forall>t d. WsWrite t d \<notin> set post"
    by simp
  from loop [THEN mp, OF write_ws] obtain closing
    where "post = snd (recvLoop (connect_ReadMessage env_ws)) @ closing \<and>
           set closing \<subseteq> {ConnClose, RespBodyClose}" ..
  then have "post = snd (recvLoop (connect_ReadMessage env_ws)) @ closing"
    by (rule conjunct1)
  then have loop': "\<exists>closing. post = snd (recvLoop (connect_ReadMessage env_ws)) @ closing"
    by (rule exI)
  have "\<exists>post.
      trace (WebsocketByPortForward env_ws ''core'' ''ws'' (bytes_of_string ''hello'')) =
        [ForwardPortsStarted, Println (PString ''ws://127.0.0.1:40123/ws''),
         WsDial ''ws://127.0.0.1:40123/ws'', WsWrite TextMessage (bytes_of_string ''hello'')]
          @ post \<and>
      (\<forall>t d. WsWrite t d \<notin> set post) \<and>
      (\<exists>closing. post = snd (recvLoop (connect_ReadMessage env_ws)) @ closing)"
    by (rule exI [of _ post]) (intro conjI tr' once' loop')
  with getPortforward_core Init_core_app dial_ws show ?thesis
    by (intro conjI)
qed

end
